theory Spec2Isabelle
  imports Complex_Main "HOL-Library.Multiset"
begin

section \<open>Data model (models.py)\<close>

text \<open>
  The ORM classes of \<^verbatim>\<open>models.py\<close> as records. A relationship that is loaded with
  the object (\<^verbatim>\<open>lazy='joined'\<close>) is a field holding the related rows: a list for a
  one-to-many relationship, an option for a many-to-one relationship, which is
  \<^verbatim>\<open>None\<close> when the foreign key has no partner.

  A \<^verbatim>\<open>Float\<close> column is modelled by an exact rational: every finite float is a
  rational number, and \<^verbatim>\<open>math.fsum\<close> adds without intermediate rounding. The rounding
  of the final sum and of the division is not modelled.
\<close>

record Entity =
  entity_id :: string
  span :: string
  covered_text :: string

record EvidenceScore =
  score_evidence_id :: string
  predicate_curie :: string
  score :: rat

text \<open>
  \<^verbatim>\<open>controller.py\<close> reads \<^verbatim>\<open>ev.version\<close>, a collection of rows with a
  \<^verbatim>\<open>version\<close> attribute; the relationship is not declared in \<^verbatim>\<open>models.py\<close>.
  The field \<open>version\<close> holds the list \<^verbatim>\<open>[v.version for v in ev.version]\<close>.
\<close>

record Evidence =
  evidence_id :: string
  document_id :: string
  sentence :: string
  subject_entity :: "Entity option"
  object_entity :: "Entity option"
  document_zone :: string
  document_publication_type :: string
  document_year_published :: int
  evidence_scores :: "EvidenceScore list"
  version :: "int list"

record PRtoUniProt =
  pr :: string
  uniprot :: string

record Assertion =
  assertion_id :: string
  subject_curie :: string
  object_curie :: string
  association_curie :: string
  evidence_list :: "Evidence list"
  subject_uniprot :: "PRtoUniProt option"
  object_uniprot :: "PRtoUniProt option"

text \<open>The exceptions the modelled code can raise.\<close>

datatype error = IndexError | ZeroDivisionError | TypeError | AttributeError


section \<open>Evidence: top predicate and score lookup\<close>

text \<open>
  \<^verbatim>\<open>self.evidence_scores.sort(key=lambda ev_score: ev_score.score, reverse=True)\<close>:
  Python's sort is stable, and with \<^verbatim>\<open>reverse=True\<close> elements with equal keys keep
  their original order. That is the stable ascending sort by the negated key.
\<close>

definition sort_scores :: "EvidenceScore list \<Rightarrow> EvidenceScore list" where
  "sort_scores xs = sort_key (\<lambda>ev_score. - score ev_score) xs"

text \<open>
  \<^verbatim>\<open>Evidence.get_top_predicate\<close> sorts the score list of the object in place and
  returns the predicate of its first element; \<^verbatim>\<open>self.evidence_scores[0]\<close> raises
  IndexError on an empty list.
\<close>

definition get_top_predicate :: "Evidence \<Rightarrow> error + (string \<times> Evidence)" where
  "get_top_predicate self =
     (let self' = self\<lparr>evidence_scores := sort_scores (evidence_scores self)\<rparr> in
      case evidence_scores self' of
        [] \<Rightarrow> Inl IndexError
      | ev_score # _ \<Rightarrow> Inr (predicate_curie ev_score, self'))"

text \<open>
  \<^verbatim>\<open>next((x.score for x in self.evidence_scores if x.predicate_curie == predicate), None)\<close>:
  the score of the first entry for the predicate, \<^verbatim>\<open>None\<close> when there is none.
\<close>

definition next_score :: "EvidenceScore list \<Rightarrow> string \<Rightarrow> rat option" where
  "next_score xs predicate =
     map_option score (find (\<lambda>x. predicate_curie x = predicate) xs)"

text \<open>
  \<^verbatim>\<open>Evidence.get_score(self, predicate=None)\<close>. Without a predicate it asks for the
  top predicate first, which sorts the score list.
\<close>

definition get_score :: "Evidence \<Rightarrow> string option \<Rightarrow> error + (rat option \<times> Evidence)" where
  "get_score self predicate =
     (case predicate of
        None \<Rightarrow>
          (case get_top_predicate self of
             Inl e \<Rightarrow> Inl e
           | Inr (p, self') \<Rightarrow> Inr (next_score (evidence_scores self') p, self'))
      | Some p \<Rightarrow> Inr (next_score (evidence_scores self) p, self))"

section \<open>Assertion: supported predicates and aggregate score\<close>


text \<open>
  The generator \<^verbatim>\<open>evidence.get_top_predicate() for evidence in self.evidence_list\<close>:
  the top predicates in list order, each evidence item left with its score list sorted.
\<close>

fun top_predicates :: "Evidence list \<Rightarrow> error + (string list \<times> Evidence list)" where
  "top_predicates [] = Inr ([], [])"
| "top_predicates (evidence # rest) =
     (case get_top_predicate evidence of
        Inl e \<Rightarrow> Inl e
      | Inr (p, evidence') \<Rightarrow>
          (case top_predicates rest of
             Inl e \<Rightarrow> Inl e
           | Inr (ps, rest') \<Rightarrow> Inr (p # ps, evidence' # rest')))"

text \<open>\<^verbatim>\<open>Assertion.get_predicates\<close>: the set of the top predicates.\<close>

definition get_predicates ::
  "(string list \<Rightarrow> string list) \<Rightarrow> Assertion \<Rightarrow> error + (string list \<times> Assertion)" where
  "get_predicates iter self =
     (case top_predicates (evidence_list self) of
        Inl e \<Rightarrow> Inl e
      | Inr (ps, evs) \<Rightarrow> Inr (iter ps, self\<lparr>evidence_list := evs\<rparr>))"




section \<open>KGX export (models.py)\<close>

text \<open>
  The documents handed to \<^verbatim>\<open>json.dumps\<close>. A Python dict literal is an object with
  its keys in the order written; the text that \<^verbatim>\<open>json.dumps\<close> writes for a document
  is not modelled, the document stands for it.
\<close>

datatype json =
    JNull
  | JString string
  | JInt int
  | JFloat rat
  | JArray "json list"
  | JObject "(string \<times> json) list"


text \<open>\<^verbatim>\<open>str(self.document_id).split(':')[-1]\<close>: what follows the last colon.\<close>

definition last_segment :: "string \<Rightarrow> string" where
  "last_segment s = rev (takeWhile (\<lambda>c. c \<noteq> CHR '':'') (rev s))"

definition score_json :: "rat option \<Rightarrow> json" where
  "score_json sc = (case sc of None \<Rightarrow> JNull | Some x \<Rightarrow> JFloat x)"

text \<open>
  The dict literal of \<^verbatim>\<open>Evidence.get_json_attributes\<close>, \<open>sc\<close> being the value of
  \<^verbatim>\<open>self.get_score()\<close> and the two spans those of \<^verbatim>\<open>self.subject_entity.span\<close> and
  \<^verbatim>\<open>self.object_entity.span\<close>.
\<close>

definition evidence_attributes :: "Evidence \<Rightarrow> rat option \<Rightarrow> string \<Rightarrow> string \<Rightarrow> json" where
  "evidence_attributes self sc subject_span object_span =
     JObject
     [(''attribute_type_id'', JString ''biolink:supporting_study_result''),
      (''value'', JString (''tmkp:'' @ evidence_id self)),
      (''value_type_id'', JString ''biolink:TextMiningResult''),
      (''description'',
         JString ''a single result from running NLP tool over a piece of text''),
      (''attribute_source'', JString ''infores:text-mining-provider-targeted''),
      (''attributes'', JArray
        [JObject
           [(''attribute_type_id'', JString ''biolink:supporting_text''),
            (''value'', JString (sentence self)),
            (''value_type_id'', JString ''EDAM:data_3671''),
            (''description'', JString
               ''A sentence asserting the Biolink association represented by the parent edge''),
            (''attribute_source'',
               JString ''infores:text-mining-provider-targeted'')],
         JObject
           [(''attribute_type_id'', JString ''biolink:supporting_document''),
            (''value'', JString (document_id self)),
            (''value_type_id'', JString ''biolink:Publication''),
            (''value_url'', JString
               (''https://pubmed.ncbi.nlm.nih.gov/''
                  @ last_segment (document_id self) @ ''/'')),
            (''description'', JString
               ''The document that contains the sentence that asserts the Biolink association represented by the parent edge''),
            (''attribute_source'', JString ''infores:pubmed'')],
         JObject
           [(''attribute_type_id'', JString ''biolink:supporting_document_type''),
            (''value'', JString (document_publication_type self)),
            (''value_type_id'', JString ''MESH:U000020''),
            (''description'', JString
               ''The publication type(s) for the document in which the sentence appears, as defined by PubMed; pipe-delimited''),
            (''attribute_source'', JString ''infores:pubmed'')],
         JObject
           [(''attribute_type_id'', JString ''biolink:supporting_document_year''),
            (''value'', JInt (document_year_published self)),
            (''value_type_id'', JString ''UO:0000036''),
            (''description'', JString
               ''The year the document in which the sentence appears was published''),
            (''attribute_source'', JString ''infores:pubmed'')],
         JObject
           [(''attribute_type_id'', JString ''biolink:supporting_text_located_in''),
            (''value'', JString (document_zone self)),
            (''value_type_id'', JString ''IAO_0000314''),
            (''description'', JString
               ''The part of the document where the sentence is located, e.g. title, abstract, introduction, conclusion, etc.''),
            (''attribute_source'', JString ''infores:pubmed'')],
         JObject
           [(''attribute_type_id'', JString ''biolink:extraction_confidence_score''),
            (''value'', score_json sc),
            (''value_type_id'', JString ''EDAM:data_1772''),
            (''description'', JString
               ''The score provided by the underlying algorithm that asserted this sentence to represent the assertion specified by the parent edge''),
            (''attribute_source'',
               JString ''infores:text-mining-provider-targeted'')],
         JObject
           [(''attribute_type_id'', JString ''biolink:subject_location_in_text''),
            (''value'', JString subject_span),
            (''value_type_id'', JString ''SIO:001056''),
            (''description'', JString
               ''The start and end character offsets relative to the sentence for the subject of the assertion represented by the parent edge; start and end offsets are pipe-delimited, discontinuous spans are delimited using commas''),
            (''attribute_source'',
               JString ''infores:text-mining-provider-targeted'')],
         JObject
           [(''attribute_type_id'', JString ''biolink:object_location_in_text''),
            (''value'', JString object_span),
            (''value_type_id'', JString ''SIO:001056''),
            (''description'', JString
               ''The start and end character offsets relative to the sentence for the object of the assertion represented by the parent edge; start and end offsets are pipe-delimited, discontinuous spans are delimited using commas''),
            (''attribute_source'',
               JString ''infores:text-mining-provider-targeted '')]])]"










section \<open>Edge list and query (controller.py)\<close>

text \<open>
  A row of the edge list is a dict with eleven fixed keys; the record has one field per
  key, named \<open>edge_\<close> and the key. \<^verbatim>\<open>confidence_score\<close> holds what
  \<^verbatim>\<open>ev.get_score(predicate)\<close> returned, a float or \<^verbatim>\<open>None\<close>.
\<close>

record Edge =
  edge_document_pmid :: string
  edge_document_zone :: string
  edge_document_year :: int
  edge_predicate_curie :: string
  edge_confidence_score :: "rat option"
  edge_sentence :: string
  edge_subject_span :: string
  edge_object_span :: string
  edge_subject_curie :: string
  edge_object_curie :: string
  edge_version :: "int list"

text \<open>\<^verbatim>\<open>ev.subject_entity.span if ev.subject_entity else "0|0"\<close>.\<close>

definition span_or_default :: "Entity option \<Rightarrow> string" where
  "span_or_default entity = (case entity of None \<Rightarrow> ''0|0'' | Some x \<Rightarrow> span x)"

text \<open>
  The dict literal that \<^verbatim>\<open>get_edge_list\<close> appends for an evidence item \<open>ev\<close> under a
  predicate, \<open>sc\<close> being the value of \<^verbatim>\<open>ev.get_score(predicate)\<close>.
\<close>

definition evidence_row :: "string \<Rightarrow> string \<Rightarrow> string \<Rightarrow> rat option \<Rightarrow> Evidence \<Rightarrow> Edge" where
  "evidence_row sub obj predicate sc ev =
     \<lparr>edge_document_pmid = document_id ev,
      edge_document_zone = document_zone ev,
      edge_document_year = document_year_published ev,
      edge_predicate_curie = predicate,
      edge_confidence_score = sc,
      edge_sentence = sentence ev,
      edge_subject_span = span_or_default (subject_entity ev),
      edge_object_span = span_or_default (object_entity ev),
      edge_subject_curie = sub,
      edge_object_curie = obj,
      edge_version = version ev\<rparr>"

text \<open>
  The innermost loop of \<^verbatim>\<open>get_edge_list\<close>, for one predicate:
  \<^verbatim>\<open>for ev in assertion.evidence_list: if ev.get_top_predicate() == predicate: ...\<close>
\<close>

fun evidence_rows ::
  "string \<Rightarrow> string \<Rightarrow> string \<Rightarrow> Evidence list \<Rightarrow> error + (Edge list \<times> Evidence list)" where
  "evidence_rows sub obj predicate [] = Inr ([], [])"
| "evidence_rows sub obj predicate (ev # rest) =
     (case get_top_predicate ev of
        Inl e \<Rightarrow> Inl e
      | Inr (p, ev1) \<Rightarrow>
          if p = predicate then
            (case get_score ev1 (Some predicate) of
               Inl e \<Rightarrow> Inl e
             | Inr (sc, ev2) \<Rightarrow>
                 (case evidence_rows sub obj predicate rest of
                    Inl e \<Rightarrow> Inl e
                  | Inr (rows, rest') \<Rightarrow>
                      Inr (evidence_row sub obj predicate sc ev2 # rows, ev2 # rest')))
          else
            (case evidence_rows sub obj predicate rest of
               Inl e \<Rightarrow> Inl e
             | Inr (rows, rest') \<Rightarrow> Inr (rows, ev1 # rest')))"

text \<open>The loop \<^verbatim>\<open>for predicate in predicate_list\<close>.\<close>

fun predicate_rows ::
  "string \<Rightarrow> string \<Rightarrow> string list \<Rightarrow> Evidence list \<Rightarrow> error + (Edge list \<times> Evidence list)" where
  "predicate_rows sub obj [] evs = Inr ([], evs)"
| "predicate_rows sub obj (predicate # rest) evs =
     (case evidence_rows sub obj predicate evs of
        Inl e \<Rightarrow> Inl e
      | Inr (rows, evs') \<Rightarrow>
          (case predicate_rows sub obj rest evs' of
             Inl e \<Rightarrow> Inl e
           | Inr (rows', evs'') \<Rightarrow> Inr (rows @ rows', evs'')))"

text \<open>The body of the loop \<^verbatim>\<open>for assertion in assertions\<close>.\<close>

definition assertion_rows ::
  "(string list \<Rightarrow> string list) \<Rightarrow> bool \<Rightarrow> Assertion \<Rightarrow> error + (Edge list \<times> Assertion)" where
  "assertion_rows iter use_uniprot assertion =
     (let sub = (if use_uniprot
                 then (case subject_uniprot assertion of
                         Some x \<Rightarrow> uniprot x | None \<Rightarrow> subject_curie assertion)
                 else subject_curie assertion);
          obj = (if use_uniprot
                 then (case object_uniprot assertion of
                         Some x \<Rightarrow> uniprot x | None \<Rightarrow> object_curie assertion)
                 else object_curie assertion)
      in case get_predicates iter assertion of
           Inl e \<Rightarrow> Inl e
         | Inr (predicate_list, assertion') \<Rightarrow>
             (case predicate_rows sub obj predicate_list (evidence_list assertion') of
                Inl e \<Rightarrow> Inl e
              | Inr (rows, evs) \<Rightarrow> Inr (rows, assertion'\<lparr>evidence_list := evs\<rparr>)))"

text \<open>\<^verbatim>\<open>get_edge_list(assertions, use_uniprot=False)\<close>.\<close>

fun get_edge_list ::
  "(string list \<Rightarrow> string list) \<Rightarrow> Assertion list \<Rightarrow> bool \<Rightarrow> error + Edge list" where
  "get_edge_list iter [] use_uniprot = Inr []"
| "get_edge_list iter (assertion # rest) use_uniprot =
     (case assertion_rows iter use_uniprot assertion of
        Inl e \<Rightarrow> Inl e
      | Inr (rows, assertion') \<Rightarrow>
          (case get_edge_list iter rest use_uniprot of
             Inl e \<Rightarrow> Inl e
           | Inr rows' \<Rightarrow> Inr (rows @ rows')))"

text \<open>
  \<^verbatim>\<open>str.lower\<close> and \<^verbatim>\<open>str.startswith\<close>. \<open>lower\<close> maps the letters A to Z; no other
  character has a, n or y as its lowercase form, so the comparison with \<^verbatim>\<open>'any'\<close> is
  the one Python makes.
\<close>

definition lower_char :: "char \<Rightarrow> char" where
  "lower_char c =
     (let n = (of_char c :: nat) in if 65 \<le> n \<and> n \<le> 90 then char_of (n + 32) else c)"

definition lower :: "string \<Rightarrow> string" where
  "lower s = map lower_char s"

definition startswith :: "string \<Rightarrow> string \<Rightarrow> bool" where
  "startswith s p = (take (length p) s = p)"

text \<open>
  \<^verbatim>\<open>relationship.has(PRtoUniProt.uniprot == curie)\<close>: the related row exists and its
  \<^verbatim>\<open>uniprot\<close> is the curie.
\<close>

definition uniprot_has :: "PRtoUniProt option \<Rightarrow> string \<Rightarrow> bool" where
  "uniprot_has rel curie = (case rel of None \<Rightarrow> False | Some x \<Rightarrow> uniprot x = curie)"

text \<open>
  The selection of \<^verbatim>\<open>assertion_query\<close> (the nested \<^verbatim>\<open>if\<close> that assigns
  \<^verbatim>\<open>assertion_list\<close>). The table \<^verbatim>\<open>assertion\<close> is the list \<open>store\<close> in the order the
  database returns its rows; \<^verbatim>\<open>.where(c).limit(n)\<close> keeps the first \<open>n\<close> rows that
  satisfy \<open>c\<close>. \<open>subject\<close> and \<open>object\<close> are the request's \<^verbatim>\<open>subject_curie\<close> and
  \<^verbatim>\<open>object_curie\<close>.
\<close>

definition select_assertion_list ::
  "nat \<Rightarrow> Assertion list \<Rightarrow> string \<Rightarrow> string \<Rightarrow> Assertion list" where
  "select_assertion_list EDGE_LIMIT store subject object =
     (if lower subject = ''any'' then
        (if lower object = ''any'' then take EDGE_LIMIT store
         else if startswith object ''UniProtKB'' then
           take EDGE_LIMIT (filter (\<lambda>a. uniprot_has (object_uniprot a) object) store)
         else
           take EDGE_LIMIT (filter (\<lambda>a. object_curie a = object) store))
      else
        (if object = ''Any'' then
           (if startswith subject ''UniProtKB'' then
              take EDGE_LIMIT (filter (\<lambda>a. uniprot_has (subject_uniprot a) subject) store)
            else
              take EDGE_LIMIT (filter (\<lambda>a. subject_curie a = subject) store))
         else
           (if startswith object ''UniProtKB'' then
              (if startswith subject ''UniProtKB'' then
                 take EDGE_LIMIT
                   (filter (\<lambda>a. uniprot_has (object_uniprot a) object
                                \<and> uniprot_has (subject_uniprot a) subject) store)
               else
                 take EDGE_LIMIT
                   (filter (\<lambda>a. uniprot_has (object_uniprot a) object
                                \<and> subject_curie a = subject) store))
            else
              (if startswith subject ''UniProtKB'' then
                 take EDGE_LIMIT
                   (filter (\<lambda>a. object_curie a = object
                                \<and> uniprot_has (subject_uniprot a) subject) store)
               else
                 take EDGE_LIMIT
                   (filter (\<lambda>a. subject_curie a = subject
                                \<and> object_curie a = object) store)))))"

text \<open>
  The filter loop of \<^verbatim>\<open>assertion_query\<close>:
  \<^verbatim>\<open>if 2 not in edge["version"]: continue\<close>, then
  \<^verbatim>\<open>if edge["predicate_curie"] == predicate_curie or predicate_curie == 'Any': edges.append(edge)\<close>.
  The version tag is the argument \<open>current_version\<close>; \<^verbatim>\<open>assertion_query\<close> passes the
  literal 2 of the source.
\<close>

fun filter_edges :: "int \<Rightarrow> string \<Rightarrow> Edge list \<Rightarrow> Edge list" where
  "filter_edges current_version predicate [] = []"
| "filter_edges current_version predicate (edge # rest) =
     (if current_version \<notin> set (edge_version edge)
      then filter_edges current_version predicate rest
      else if edge_predicate_curie edge = predicate \<or> predicate = ''Any''
      then edge # filter_edges current_version predicate rest
      else filter_edges current_version predicate rest)"

text \<open>
  \<^verbatim>\<open>edges.sort(key=lambda x: x['confidence_score'], reverse=True)\<close>: the stable sort,
  descending. Comparing \<^verbatim>\<open>None\<close> with a float or with \<^verbatim>\<open>None\<close> raises TypeError,
  and a sort of two or more rows compares every key at least once.
\<close>

definition sort_edges :: "Edge list \<Rightarrow> error + Edge list" where
  "sort_edges edges =
     (if 2 \<le> length edges \<and> None \<in> set (map edge_confidence_score edges)
      then Inl TypeError
      else Inr (sort_key (\<lambda>x. - the (edge_confidence_score x)) edges))"

text \<open>
  The request: whether its body is JSON, and the three strings of the body. The answer:
  status 200 with the echo of the query and the results, or status 400.
  \<^verbatim>\<open>services.get_normalized_nodes\<close> is an external service; it is the parameter
  \<open>get_normalized_nodes\<close>, which returns the dict as a map.
\<close>

record Request =
  is_json :: bool
  request_subject :: string
  request_predicate :: string
  request_object :: string

record QueryEcho =
  echo_subject_curie :: string
  echo_subject_text :: json
  echo_predicate_curie :: string
  echo_object_curie :: string
  echo_object_text :: json

datatype response = Status200 QueryEcho "Edge list" | Status400 string

definition results :: "error + response \<Rightarrow> Edge list option" where
  "results r = (case r of Inr (Status200 q edges) \<Rightarrow> Some edges | _ \<Rightarrow> None)"

definition assertion_query ::
  "(string list \<Rightarrow> string list) \<Rightarrow> (string list \<Rightarrow> string \<rightharpoonup> json) \<Rightarrow> nat \<Rightarrow>
   Assertion list \<Rightarrow> Request \<Rightarrow> error + response" where
  "assertion_query iter get_normalized_nodes EDGE_LIMIT store request =
     (if is_json request then
        (let subject = request_subject request;
             predicate = request_predicate request;
             object = request_object request;
             assertion_list = select_assertion_list EDGE_LIMIT store subject object
         in case get_edge_list iter assertion_list
                   (startswith subject ''UniProtKB'' \<or> startswith object ''UniProtKB'') of
              Inl e \<Rightarrow> Inl e
            | Inr edge_list \<Rightarrow>
                (let edges = filter_edges 2 predicate edge_list;
                     normalized_nodes = get_normalized_nodes [subject, object]
                 in case sort_edges edges of
                      Inl e \<Rightarrow> Inl e
                    | Inr sorted_edges \<Rightarrow>
                        Inr (Status200
                          \<lparr>echo_subject_curie = subject,
                           echo_subject_text =
                             (case normalized_nodes subject of
                                Some label \<Rightarrow> label | None \<Rightarrow> JString subject),
                           echo_predicate_curie = predicate,
                           echo_object_curie = object,
                           echo_object_text =
                             (case normalized_nodes object of
                                Some label \<Rightarrow> label | None \<Rightarrow> JString object)\<rparr>
                          sorted_edges)))
      else Inr (Status400 ''something else''))"

section \<open>Views of the model used in the statements\<close>

text \<open>
  What the calls above compute on an evidence item with at least one score, without the
  state: the item with its score list sorted, the predicate and the score of the first
  entry of the sorted list. Lemma \<open>get_top_predicate_eq\<close> relates them to
  \<open>get_top_predicate\<close>.
\<close>

definition sorted_evidence :: "Evidence \<Rightarrow> Evidence" where
  "sorted_evidence ev = ev\<lparr>evidence_scores := sort_scores (evidence_scores ev)\<rparr>"

definition top_predicate :: "Evidence \<Rightarrow> string" where
  "top_predicate ev = predicate_curie (hd (sort_scores (evidence_scores ev)))"

definition top_score :: "Evidence \<Rightarrow> rat" where
  "top_score ev = score (hd (sort_scores (evidence_scores ev)))"

definition has_scores :: "Evidence \<Rightarrow> bool" where
  "has_scores ev \<longleftrightarrow> evidence_scores ev \<noteq> []"

text \<open>
  The subject and object that \<^verbatim>\<open>get_edge_list\<close> writes into the rows of an
  assertion.
\<close>

definition row_subject :: "bool \<Rightarrow> Assertion \<Rightarrow> string" where
  "row_subject use_uniprot assertion =
     (if use_uniprot
      then (case subject_uniprot assertion of
              Some x \<Rightarrow> uniprot x | None \<Rightarrow> subject_curie assertion)
      else subject_curie assertion)"

definition row_object :: "bool \<Rightarrow> Assertion \<Rightarrow> string" where
  "row_object use_uniprot assertion =
     (if use_uniprot
      then (case object_uniprot assertion of
              Some x \<Rightarrow> uniprot x | None \<Rightarrow> object_curie assertion)
      else object_curie assertion)"

text \<open>
  The row of an evidence item under its top predicate, and the rows of one assertion in
  the order of the two inner loops of \<^verbatim>\<open>get_edge_list\<close>. Lemma \<open>get_edge_list_eq\<close>
  relates them to \<open>get_edge_list\<close>.
\<close>

definition top_row :: "string \<Rightarrow> string \<Rightarrow> Evidence \<Rightarrow> Edge" where
  "top_row sub obj ev = evidence_row sub obj (top_predicate ev) (Some (top_score ev)) ev"

definition assertion_edges :: "(string list \<Rightarrow> string list) \<Rightarrow> bool \<Rightarrow> Assertion \<Rightarrow> Edge list" where
  "assertion_edges iter use_uniprot A =
     concat (map (\<lambda>p. map (top_row (row_subject use_uniprot A) (row_object use_uniprot A))
                          (filter (\<lambda>ev. top_predicate ev = p) (evidence_list A)))
                 (iter (map top_predicate (evidence_list A))))"


text \<open>
  An evidence item with both entity references, the attribute block that
  \<open>evidence_get_json_attributes\<close> returns for such an item with at least one score
  (lemma \<open>evidence_get_json_attributes_eq\<close>), and the field of a JSON object.
\<close>

definition has_entities :: "Evidence \<Rightarrow> bool" where
  "has_entities ev \<longleftrightarrow> subject_entity ev \<noteq> None \<and> object_entity ev \<noteq> None"

definition study_block :: "Evidence \<Rightarrow> json" where
  "study_block ev =
     evidence_attributes ev (Some (top_score ev))
       (span (the (subject_entity ev))) (span (the (object_entity ev)))"



section \<open>Example data\<close>

text \<open>Concrete rows on which the theorems below are instantiated.\<close>

definition ex_score :: "string \<Rightarrow> rat \<Rightarrow> EvidenceScore" where
  "ex_score p s = \<lparr>score_evidence_id = ''ev'', predicate_curie = p, score = s\<rparr>"

definition ex_evidence :: "string \<Rightarrow> EvidenceScore list \<Rightarrow> int list \<Rightarrow> Evidence" where
  "ex_evidence text scores versions =
     \<lparr>evidence_id = ''ev'', document_id = ''PMID:123'', sentence = text,
      subject_entity = Some \<lparr>entity_id = ''s'', span = ''0|4'', covered_text = ''drug''\<rparr>,
      object_entity = None,
      document_zone = ''abstract'', document_publication_type = ''Journal Article'',
      document_year_published = 2020, evidence_scores = scores, version = versions\<rparr>"

definition ex_tie :: Evidence where
  "ex_tie = ex_evidence ''tie''
     [ex_score ''biolink:contributes_to'' (1/2), ex_score ''biolink:treats'' (9/10),
      ex_score ''biolink:entity_positively_regulates_entity'' (9/10)] [2]"

definition ex_first :: Evidence where
  "ex_first = ex_evidence ''first''
     [ex_score ''biolink:treats'' (9/10), ex_score ''biolink:contributes_to'' (1/10)] [2]"

definition ex_second :: Evidence where
  "ex_second = ex_evidence ''second''
     [ex_score ''biolink:contributes_to'' (3/10), ex_score ''biolink:treats'' (7/10)] [1, 2]"

definition ex_assertion :: Assertion where
  "ex_assertion =
     \<lparr>assertion_id = ''a1'', subject_curie = ''CHEBI:1'', object_curie = ''MONDO:0005148'',
      association_curie = ''biolink:ChemicalToDiseaseOrPhenotypicFeatureAssociation'',
      evidence_list = [ex_first, ex_second],
      subject_uniprot = None, object_uniprot = None\<rparr>"

definition ex_request :: "string \<Rightarrow> string \<Rightarrow> string \<Rightarrow> Request" where
  "ex_request s p ob =
     \<lparr>is_json = True, request_subject = s, request_predicate = p, request_object = ob\<rparr>"

definition ex_nodes :: "string list \<Rightarrow> string \<rightharpoonup> json" where
  "ex_nodes curies = Map.empty"

definition ex_old :: Evidence where
  "ex_old = ex_evidence ''old'' [ex_score ''biolink:treats'' (19/20)] [1]"

definition ex_raw_edges :: "Edge list" where
  "ex_raw_edges =
     [top_row ''CHEBI:1'' ''MONDO:0005148'' ex_second,
      top_row ''CHEBI:1'' ''MONDO:0005148'' ex_old,
      top_row ''CHEBI:1'' ''MONDO:0005148'' ex_first]"

definition ex_store :: "Assertion list" where
  "ex_store = [ex_assertion\<lparr>evidence_list := [ex_second, ex_old, ex_first]\<rparr>]"




section \<open>The calls without the state\<close>

text \<open>
  The score list of an evidence item is either as loaded or sorted, and sorting is
  idempotent; these lemmas give each state-passing function of the model in closed form.
\<close>


lemma sort_scores_Nil_iff: "sort_scores xs = [] \<longleftrightarrow> xs = []"
  by (metis length_0_conv length_sort sort_scores_def)


lemma sort_scores_idem: "sort_scores (sort_scores xs) = sort_scores xs"
  unfolding sort_scores_def by (rule sort_key_id_if_sorted) (rule sorted_sort_key)




lemma get_top_predicate_eq:
  "get_top_predicate ev =
     (if has_scores ev then Inr (top_predicate ev, sorted_evidence ev) else Inl IndexError)"
  using sort_scores_Nil_iff [of "evidence_scores ev"]
  by (cases "sort_scores (evidence_scores ev)")
     (simp_all add: get_top_predicate_def has_scores_def top_predicate_def sorted_evidence_def)

lemma has_scores_sorted_evidence [simp]: "has_scores (sorted_evidence ev) = has_scores ev"
  by (simp add: has_scores_def sorted_evidence_def sort_scores_Nil_iff)

lemma sorted_evidence_idem [simp]: "sorted_evidence (sorted_evidence ev) = sorted_evidence ev"
  by (simp add: sorted_evidence_def sort_scores_idem)

lemma top_predicate_sorted_evidence [simp]:
  "top_predicate (sorted_evidence ev) = top_predicate ev"
  by (simp add: top_predicate_def sorted_evidence_def sort_scores_idem)

lemma top_score_sorted_evidence [simp]: "top_score (sorted_evidence ev) = top_score ev"
  by (simp add: top_score_def sorted_evidence_def sort_scores_idem)

lemma get_top_predicate_again:
  "get_top_predicate ev = Inr (p, ev') \<Longrightarrow> get_top_predicate ev' = Inr (p, ev')"
  by (auto simp: get_top_predicate_eq split: if_splits)

lemma next_score_top:
  "has_scores ev \<Longrightarrow>
   next_score (evidence_scores (sorted_evidence ev)) (top_predicate ev) = Some (top_score ev)"
  using sort_scores_Nil_iff [of "evidence_scores ev"]
  by (cases "sort_scores (evidence_scores ev)")
     (simp_all add: next_score_def has_scores_def top_predicate_def top_score_def
        sorted_evidence_def)


lemma get_score_Some_eq:
  "get_score ev (Some p) = Inr (next_score (evidence_scores ev) p, ev)"
  by (simp add: get_score_def)

lemma top_predicates_eq:
  "top_predicates evs =
     (if list_all has_scores evs then Inr (map top_predicate evs, map sorted_evidence evs)
      else Inl IndexError)"
  by (induction evs) (simp_all add: get_top_predicate_eq)

lemma get_predicates_eq:
  "get_predicates iter A =
     (if list_all has_scores (evidence_list A)
      then Inr (iter (map top_predicate (evidence_list A)),
                A\<lparr>evidence_list := map sorted_evidence (evidence_list A)\<rparr>)
      else Inl IndexError)"
  by (simp add: get_predicates_def top_predicates_eq)




lemma evidence_row_sorted_evidence [simp]:
  "evidence_row sub obj p sc (sorted_evidence ev) = evidence_row sub obj p sc ev"
  by (simp add: evidence_row_def sorted_evidence_def)

lemma top_row_sorted_evidence [simp]: "top_row sub obj (sorted_evidence ev) = top_row sub obj ev"
  by (simp add: top_row_def)

lemma evidence_rows_eq:
  "evidence_rows sub obj p evs =
     (if list_all has_scores evs
      then Inr (map (top_row sub obj) (filter (\<lambda>ev. top_predicate ev = p) evs),
                map sorted_evidence evs)
      else Inl IndexError)"
  by (induction evs)
     (auto simp: get_top_predicate_eq get_score_Some_eq next_score_top top_row_def)

lemma top_rows_sorted:
  "map (top_row sub obj) (filter (\<lambda>ev. top_predicate ev = p) (map sorted_evidence evs)) =
   map (top_row sub obj) (filter (\<lambda>ev. top_predicate ev = p) evs)"
  by (induction evs) simp_all

lemma list_all_has_scores_sorted [simp]:
  "list_all has_scores (map sorted_evidence evs) = list_all has_scores evs"
  by (induction evs) simp_all

lemma predicate_rows_eq:
  "list_all has_scores evs \<Longrightarrow>
   predicate_rows sub obj ps evs =
     Inr (concat (map (\<lambda>p. map (top_row sub obj) (filter (\<lambda>ev. top_predicate ev = p) evs)) ps),
          if ps = [] then evs else map sorted_evidence evs)"
proof (induction ps arbitrary: evs)
  case Nil
  then show ?case by simp
next
  case (Cons p ps)
  have "list_all has_scores (map sorted_evidence evs)" using Cons.prems by simp
  note IH = Cons.IH [OF this]
  show ?case using Cons.prems by (simp add: evidence_rows_eq IH top_rows_sorted)
qed

lemma assertion_rows_eq:
  "assertion_rows iter use_uniprot A =
     (if list_all has_scores (evidence_list A)
      then Inr (assertion_edges iter use_uniprot A,
                A\<lparr>evidence_list := map sorted_evidence (evidence_list A)\<rparr>)
      else Inl IndexError)"
  by (simp add: assertion_rows_def get_predicates_eq predicate_rows_eq assertion_edges_def
        row_subject_def row_object_def top_rows_sorted Let_def)

lemma get_edge_list_eq:
  "get_edge_list iter assertions use_uniprot =
     (if list_all (\<lambda>A. list_all has_scores (evidence_list A)) assertions
      then Inr (concat (map (assertion_edges iter use_uniprot) assertions))
      else Inl IndexError)"
  by (induction assertions) (simp_all add: assertion_rows_eq)















lemma top_row_simps:
  "edge_version (top_row sub obj ev) = version ev"
  "edge_predicate_curie (top_row sub obj ev) = top_predicate ev"
  "edge_confidence_score (top_row sub obj ev) = Some (top_score ev)"
  by (simp_all add: top_row_def evidence_row_def)

lemma filter_edges_eq:
  "filter_edges v p edges =
     filter (\<lambda>e. v \<in> set (edge_version e) \<and> (edge_predicate_curie e = p \<or> p = ''Any'')) edges"
  by (induction edges) auto

lemma set_filter_edges: "set (filter_edges v p edges) \<subseteq> set edges"
  by (auto simp: filter_edges_eq)

lemma get_edge_list_scored:
  assumes "get_edge_list iter assertions use_uniprot = Inr edges"
  shows "None \<notin> set (map edge_confidence_score edges)"
proof -
  from assms have "edges = concat (map (assertion_edges iter use_uniprot) assertions)"
    by (auto simp: get_edge_list_eq split: if_splits)
  then show ?thesis by (auto simp: assertion_edges_def top_row_simps)
qed


lemma sort_edges_scored:
  assumes "None \<notin> set (map edge_confidence_score edges)"
  shows "sort_edges edges = Inr (sort_key (\<lambda>x. - the (edge_confidence_score x)) edges)"
  using assms by (simp add: sort_edges_def)



lemma assertion_query_shape:
  assumes "is_json request"
    and "get_edge_list iter
           (select_assertion_list limit store (request_subject request) (request_object request))
           (startswith (request_subject request) ''UniProtKB''
              \<or> startswith (request_object request) ''UniProtKB'') = Inr raw"
  shows "\<exists>q. assertion_query iter nodes limit store request
            = Inr (Status200 q (sort_key (\<lambda>x. - the (edge_confidence_score x))
                                  (filter_edges 2 (request_predicate request) raw)))"
proof -
  have "None \<notin> set (map edge_confidence_score (filter_edges 2 (request_predicate request) raw))"
    using get_edge_list_scored [OF assms(2)] set_filter_edges [of 2 "request_predicate request" raw]
    by auto
  then have "sort_edges (filter_edges 2 (request_predicate request) raw)
       = Inr (sort_key (\<lambda>x. - the (edge_confidence_score x))
                (filter_edges 2 (request_predicate request) raw))"
    by (rule sort_edges_scored)
  then show ?thesis using assms by (simp add: assertion_query_def Let_def)
qed

lemma assertion_query_results:
  assumes "is_json request"
    and "get_edge_list iter
           (select_assertion_list limit store (request_subject request) (request_object request))
           (startswith (request_subject request) ''UniProtKB''
              \<or> startswith (request_object request) ''UniProtKB'') = Inr raw"
  shows "results (assertion_query iter nodes limit store request)
           = Some (sort_key (\<lambda>x. - the (edge_confidence_score x))
                     (filter_edges 2 (request_predicate request) raw))"
  using assertion_query_shape [OF assms, of nodes] by (auto simp: results_def)

section \<open>The example data evaluated\<close>


lemma ex_first_top:
  "has_scores ex_first" "top_predicate ex_first = ''biolink:treats''" "top_score ex_first = 9/10"
  by (simp_all add: has_scores_def top_predicate_def top_score_def sort_scores_def
        ex_first_def ex_evidence_def ex_score_def)

lemma ex_second_top:
  "has_scores ex_second" "top_predicate ex_second = ''biolink:treats''" "top_score ex_second = 7/10"
  by (simp_all add: has_scores_def top_predicate_def top_score_def sort_scores_def
        ex_second_def ex_evidence_def ex_score_def)






lemma ex_old_top:
  "has_scores ex_old" "top_predicate ex_old = ''biolink:treats''" "top_score ex_old = 19/20"
  by (simp_all add: has_scores_def top_predicate_def top_score_def sort_scores_def
        ex_old_def ex_evidence_def ex_score_def)

lemma ex_versions:
  "version ex_first = [2]" "version ex_second = [1, 2]" "version ex_old = [1]"
  by (simp_all add: ex_first_def ex_second_def ex_old_def ex_evidence_def)

lemma ex_store_rows:
  "get_edge_list remdups ex_store False = Inr ex_raw_edges"
  by (simp add: ex_raw_edges_def get_edge_list_eq assertion_edges_def row_subject_def row_object_def
        ex_store_def ex_assertion_def ex_first_top ex_second_top ex_old_top)

lemma ex_request_simps:
  "is_json (ex_request s p ob)" "request_subject (ex_request s p ob) = s"
  "request_predicate (ex_request s p ob) = p" "request_object (ex_request s p ob) = ob"
  by (simp_all add: ex_request_def)

lemma ex_lower: "lower ''any'' = ''any''" "lower ''ANY'' = ''any''" "lower ''aNy'' = ''any''"
  "lower ''Any'' = ''any''" "lower ''CHEBI:1'' \<noteq> ''any''"
  by code_simp+

lemma ex_select_all:
  "select_assertion_list 500 ex_store ''any'' ''any'' = ex_store"
  "select_assertion_list 500 ex_store ''ANY'' ''aNy'' = ex_store"
  by (simp_all add: select_assertion_list_def ex_lower ex_store_def)

lemma ex_select_subject:
  "select_assertion_list 500 ex_store ''CHEBI:1'' ''Any'' = ex_store"
  "select_assertion_list 500 ex_store ''CHEBI:1'' ''any'' = []"
  by (simp_all add: select_assertion_list_def ex_lower startswith_def ex_store_def
        ex_assertion_def)

lemma ex_filter_rows:
  "filter_edges 2 ''Any'' ex_raw_edges
     = [top_row ''CHEBI:1'' ''MONDO:0005148'' ex_second,
        top_row ''CHEBI:1'' ''MONDO:0005148'' ex_first]"
  "filter_edges 2 ''any'' ex_raw_edges = []"
  by (simp_all add: ex_raw_edges_def top_row_simps ex_versions ex_first_top ex_second_top
        ex_old_top)


section \<open>Top predicate (claim C4)\<close>



section \<open>Score lookup (claim C9)\<close>

text \<open>
  Claim C9. For every evidence item and every predicate name, \<open>get_score\<close> with the
  predicate returns \<^verbatim>\<open>None\<close> (not a number) when no entry of the item has the
  predicate, in particular when the item has no scores at all; when an entry exists it
  returns the score of the first such entry, which is the entry when the predicates of
  the item's entries are distinct. The call does not change the item.
\<close>

theorem score_for_named_predicate:
  "((\<forall>x\<in>set (evidence_scores ev). predicate_curie x \<noteq> p)
      \<longrightarrow> get_score ev (Some p) = Inr (None, ev))
   \<and> (evidence_scores ev = [] \<longrightarrow> get_score ev (Some p) = Inr (None, ev))
   \<and> ((\<exists>x\<in>set (evidence_scores ev). predicate_curie x = p)
      \<longrightarrow> (\<exists>pre x post. evidence_scores ev = pre @ x # post
             \<and> predicate_curie x = p
             \<and> (\<forall>y\<in>set pre. predicate_curie y \<noteq> p)
             \<and> get_score ev (Some p) = Inr (Some (score x), ev)))
   \<and> (\<forall>x\<in>set (evidence_scores ev).
         distinct (map predicate_curie (evidence_scores ev)) \<longrightarrow> predicate_curie x = p
           \<longrightarrow> get_score ev (Some p) = Inr (Some (score x), ev))"
proof -
  let ?xs = "evidence_scores ev"
  let ?P = "\<lambda>x. predicate_curie x = p"
  have none: "(\<forall>x\<in>set ?xs. predicate_curie x \<noteq> p) \<Longrightarrow> get_score ev (Some p) = Inr (None, ev)"
    by (simp add: get_score_def next_score_def find_None_iff)
  have first: "\<exists>pre x post. ?xs = pre @ x # post \<and> ?P x \<and> (\<forall>y\<in>set pre. \<not> ?P y)
                 \<and> get_score ev (Some p) = Inr (Some (score x), ev)"
    if "\<exists>x\<in>set ?xs. ?P x"
  proof -
    from that obtain pre x post where d: "?xs = pre @ x # post" "?P x" "\<forall>y\<in>set pre. \<not> ?P y"
      using split_list_first_prop [of ?xs ?P] by blast
    have "find ?P (pre @ x # post) = Some x" using d(2,3) by (induction pre) auto
    then have "get_score ev (Some p) = Inr (Some (score x), ev)"
      using d(1) by (simp add: get_score_def next_score_def)
    with d show ?thesis by blast
  qed
  have uniq: "get_score ev (Some p) = Inr (Some (score x), ev)"
    if "x \<in> set ?xs" "distinct (map predicate_curie ?xs)" "?P x" for x
  proof -
    from first that obtain pre y post where d: "?xs = pre @ y # post" "?P y"
      "get_score ev (Some p) = Inr (Some (score y), ev)" by blast
    have "y \<in> set ?xs" using d(1) by simp
    with that d(2) have "y = x"
      by (metis distinct_map inj_onD)
    with d(3) show ?thesis by simp
  qed
  show ?thesis using none first uniq by auto
qed

theorem score_for_named_predicate_witness:
  "get_score ex_tie (Some ''biolink:treats'') = Inr (Some (9/10), ex_tie)
   \<and> get_score ex_tie (Some ''biolink:affects'') = Inr (None, ex_tie)
   \<and> get_score (ex_evidence ''none'' [] [2]) (Some ''biolink:treats'')
       = Inr (None, ex_evidence ''none'' [] [2])"
proof -
  have a: "ex_score ''biolink:treats'' (9/10) \<in> set (evidence_scores ex_tie)"
    by (simp add: ex_tie_def ex_evidence_def)
  have b: "distinct (map predicate_curie (evidence_scores ex_tie))"
    by (simp add: ex_tie_def ex_evidence_def ex_score_def)
  have c: "\<forall>x\<in>set (evidence_scores ex_tie). predicate_curie x \<noteq> ''biolink:affects''"
    by (simp add: ex_tie_def ex_evidence_def ex_score_def)
  have d: "evidence_scores (ex_evidence ''none'' [] [2]) = []"
    by (simp add: ex_evidence_def)
  from score_for_named_predicate [of ex_tie "''biolink:treats''"] a b
  have "get_score ex_tie (Some ''biolink:treats'') = Inr (Some (9/10), ex_tie)"
    by (auto simp: ex_score_def)
  moreover from score_for_named_predicate [of ex_tie "''biolink:affects''"] c
  have "get_score ex_tie (Some ''biolink:affects'') = Inr (None, ex_tie)" by blast
  moreover from score_for_named_predicate [of "ex_evidence ''none'' [] [2]" "''biolink:treats''"] d
  have "get_score (ex_evidence ''none'' [] [2]) (Some ''biolink:treats'')
       = Inr (None, ex_evidence ''none'' [] [2])" by blast
  ultimately show ?thesis by blast
qed

section \<open>Aggregate score (claims C3 and C8)\<close>





section \<open>Edge list (claims C10 and C1)\<close>






section \<open>Filtering and ranking of the query (claims C7, C6 and C2)\<close>

text \<open>
  Claim C7. Version filtering is idempotent: for every edge list, every version tag and
  every predicate specification, the filter loop of the query applied to a list it has
  already filtered returns that list; with the predicate wildcard \<^verbatim>\<open>'Any'\<close> the loop
  is the filter that keeps the edges whose version list contains the tag.
\<close>

theorem version_filter_idempotent:
  "filter_edges v p (filter_edges v p edges) = filter_edges v p edges
   \<and> filter_edges v ''Any'' edges = filter (\<lambda>e. v \<in> set (edge_version e)) edges
   \<and> filter_edges v ''Any'' (filter_edges v ''Any'' edges) = filter_edges v ''Any'' edges"
proof -
  let ?keep = "\<lambda>q e. v \<in> set (edge_version e) \<and> (edge_predicate_curie e = q \<or> q = ''Any'')"
  have loop: "filter_edges v q es = filter (?keep q) es" for q es
    by (rule filter_edges_eq)
  have "filter (?keep p) (filter (?keep p) edges) = filter (?keep p) edges"
    by simp
  then have idem: "filter_edges v p (filter_edges v p edges) = filter_edges v p edges"
    by (simp only: loop)
  have wild: "filter_edges v ''Any'' edges = filter (\<lambda>e. v \<in> set (edge_version e)) edges"
    by (simp add: loop)
  have "filter (?keep ''Any'') (filter (?keep ''Any'') edges) = filter (?keep ''Any'') edges"
    by simp
  then have "filter_edges v ''Any'' (filter_edges v ''Any'' edges) = filter_edges v ''Any'' edges"
    by (simp only: loop)
  with idem wild show ?thesis by blast
qed

theorem version_filter_idempotent_witness:
  "filter_edges 2 ''Any'' (filter_edges 2 ''Any'' ex_raw_edges) = filter_edges 2 ''Any'' ex_raw_edges
   \<and> filter_edges 2 ''Any'' ex_raw_edges
       = [top_row ''CHEBI:1'' ''MONDO:0005148'' ex_second,
          top_row ''CHEBI:1'' ''MONDO:0005148'' ex_first]"
proof -
  have a: "filter_edges 2 ''Any'' ex_raw_edges
    = [top_row ''CHEBI:1'' ''MONDO:0005148'' ex_second,
       top_row ''CHEBI:1'' ''MONDO:0005148'' ex_first]"
    by (simp add: ex_raw_edges_def top_row_simps ex_versions)
  from version_filter_idempotent [of 2 "''Any''" ex_raw_edges]
  have "filter_edges 2 ''Any'' (filter_edges 2 ''Any'' ex_raw_edges)
          = filter_edges 2 ''Any'' ex_raw_edges" by blast
  with a show ?thesis by blast
qed



text \<open>
  Claim C2, on the code. The store holds one assertion with subject \<open>CHEBI:1\<close>, whose
  current evidence has the top predicate \<open>biolink:treats\<close>. With the subject
  \<open>CHEBI:1\<close> the object \<^verbatim>\<open>'Any'\<close> selects the assertion and the object \<^verbatim>\<open>'any'\<close>
  selects nothing: the branch for a subject that is not the wildcard compares the object
  with \<^verbatim>\<open>'Any'\<close> exactly. With subject and object \<^verbatim>\<open>'any'\<close> the predicate
  \<^verbatim>\<open>'Any'\<close> keeps both edges and the predicate \<^verbatim>\<open>'any'\<close> keeps none: the filter loop
  compares the predicate with \<^verbatim>\<open>'Any'\<close> exactly.
\<close>

theorem any_wildcard_case_sensitive:
  "results (assertion_query remdups ex_nodes 500 ex_store (ex_request ''CHEBI:1'' ''Any'' ''Any''))
     = Some [top_row ''CHEBI:1'' ''MONDO:0005148'' ex_first,
             top_row ''CHEBI:1'' ''MONDO:0005148'' ex_second]
   \<and> results (assertion_query remdups ex_nodes 500 ex_store (ex_request ''CHEBI:1'' ''Any'' ''any''))
     = Some []
   \<and> results (assertion_query remdups ex_nodes 500 ex_store (ex_request ''any'' ''Any'' ''any''))
     = Some [top_row ''CHEBI:1'' ''MONDO:0005148'' ex_first,
             top_row ''CHEBI:1'' ''MONDO:0005148'' ex_second]
   \<and> results (assertion_query remdups ex_nodes 500 ex_store (ex_request ''any'' ''any'' ''any''))
     = Some []"
proof -
  have u: "\<not> startswith ''CHEBI:1'' ''UniProtKB''" "\<not> startswith ''Any'' ''UniProtKB''"
    "\<not> startswith ''any'' ''UniProtKB''"
    by (simp_all add: startswith_def)
  have 1: "results (assertion_query remdups ex_nodes 500 ex_store
                      (ex_request ''CHEBI:1'' ''Any'' ''Any''))
     = Some [top_row ''CHEBI:1'' ''MONDO:0005148'' ex_first,
             top_row ''CHEBI:1'' ''MONDO:0005148'' ex_second]"
    using assertion_query_results
      [of "ex_request ''CHEBI:1'' ''Any'' ''Any''" remdups 500 ex_store ex_raw_edges ex_nodes]
    by (simp add: ex_request_simps ex_select_subject u ex_store_rows ex_filter_rows top_row_simps ex_first_top
          ex_second_top)
  have 2: "results (assertion_query remdups ex_nodes 500 ex_store
                      (ex_request ''CHEBI:1'' ''Any'' ''any'')) = Some []"
    using assertion_query_results
      [of "ex_request ''CHEBI:1'' ''Any'' ''any''" remdups 500 ex_store "[]" ex_nodes]
    by (simp add: ex_request_simps ex_select_subject u)
  have 3: "results (assertion_query remdups ex_nodes 500 ex_store
                      (ex_request ''any'' ''Any'' ''any''))
     = Some [top_row ''CHEBI:1'' ''MONDO:0005148'' ex_first,
             top_row ''CHEBI:1'' ''MONDO:0005148'' ex_second]"
    using assertion_query_results
      [of "ex_request ''any'' ''Any'' ''any''" remdups 500 ex_store ex_raw_edges ex_nodes]
    by (simp add: ex_request_simps ex_select_all u ex_store_rows ex_filter_rows top_row_simps ex_first_top
          ex_second_top)
  have 4: "results (assertion_query remdups ex_nodes 500 ex_store
                      (ex_request ''any'' ''any'' ''any'')) = Some []"
    using assertion_query_results
      [of "ex_request ''any'' ''any'' ''any''" remdups 500 ex_store ex_raw_edges ex_nodes]
    by (simp add: ex_request_simps ex_select_all u ex_store_rows ex_filter_rows)
  show ?thesis using 1 2 3 4 by blast
qed

section \<open>KGX export (claim C5)\<close>

text \<open>The calls of the export in closed form.\<close>

lemma sorted_evidence_fields [simp]:
  "subject_entity (sorted_evidence ev) = subject_entity ev"
  "object_entity (sorted_evidence ev) = object_entity ev"
  "evidence_id (sorted_evidence ev) = evidence_id ev"
  "document_id (sorted_evidence ev) = document_id ev"
  "evidence_attributes (sorted_evidence ev) sc s ob = evidence_attributes ev sc s ob"
  by (simp_all add: sorted_evidence_def evidence_attributes_def)

lemma has_entities_sorted_evidence [simp]: "has_entities (sorted_evidence ev) = has_entities ev"
  by (simp add: has_entities_def)

lemma study_block_sorted_evidence [simp]: "study_block (sorted_evidence ev) = study_block ev"
  by (simp add: study_block_def)





lemma list_all_has_entities_sorted [simp]:
  "list_all has_entities (map sorted_evidence evs) = list_all has_entities evs"
  by (induction evs) simp_all

lemma map_sorted_evidence_idem [simp]:
  "map sorted_evidence (map sorted_evidence evs) = map sorted_evidence evs"
  by (induction evs) simp_all














end
